theory Spec2Isabelle
  imports Main
begin

section \<open>Personal reading list API: article store and ingestion pipeline\<close>

text \<open>
  A shallow embedding of the article model (\<^verbatim>\<open>models/article.go\<close>), the ingestion
  pipeline (\<^verbatim>\<open>services/article_processor.go\<close>) and the article handlers
  (\<^verbatim>\<open>handlers/article.go\<close>). The SQLite table \<^verbatim>\<open>articles\<close> is a list of rows, in
  table order. Everything the Go code obtains from outside the repository (the SQL
  driver's failures, the clock, the UUID generator, the HTTP client, the HTML parser,
  the process environment and the text-generation client) is an explicit argument.
\<close>

subsection \<open>Go's \<^verbatim>\<open>strings.Join\<close> and \<^verbatim>\<open>strings.Split\<close>\<close>

text \<open>
  \<^verbatim>\<open>strings.Join(elems, sep)\<close>: the elements with \<^verbatim>\<open>sep\<close> between neighbours; the
  empty string for no elements (a nil slice and an empty slice are both \<open>[]\<close>).
\<close>

fun Join :: "string list \<Rightarrow> string \<Rightarrow> string" where
  "Join [] sep = []"
| "Join [x] sep = x"
| "Join (x # y # ys) sep = x @ sep @ Join (y # ys) sep"

text \<open>
  \<^verbatim>\<open>strings.Split(s, sep)\<close> for a separator of one byte, which is what every call in
  the repository passes (\<^verbatim>\<open>","\<close>). As in Go's \<^verbatim>\<open>genSplit\<close>: while the separator occurs
  in the rest, cut the piece before its first occurrence and go on behind it; the rest
  without a separator is the last piece. The result is never empty.
\<close>

function Split :: "string \<Rightarrow> char \<Rightarrow> string list" where
  "Split s sep =
     (if sep \<in> set s
      then takeWhile (\<lambda>c. c \<noteq> sep) s # Split (tl (dropWhile (\<lambda>c. c \<noteq> sep) s)) sep
      else [s])"
  by pat_completeness auto
termination
proof (relation "measure (\<lambda>(s, sep). length s)")
  show "wf (measure (\<lambda>(s, sep). length s))" by simp
next
  fix s :: string and sep :: char
  assume "sep \<in> set s"
  then have "dropWhile (\<lambda>c. c \<noteq> sep) s \<noteq> []" by simp
  then have "length (tl (dropWhile (\<lambda>c. c \<noteq> sep) s)) < length (dropWhile (\<lambda>c. c \<noteq> sep) s)"
    by simp
  also have "\<dots> \<le> length s" by (rule length_dropWhile_le)
  finally show "((tl (dropWhile (\<lambda>c. c \<noteq> sep) s), sep), (s, sep)) \<in> measure (\<lambda>(s, sep). length s)"
    by simp
qed

declare Split.simps [simp del]

subsection \<open>Data model\<close>

text \<open>The struct \<^verbatim>\<open>Article\<close>. Times are seconds on some clock.\<close>

record Article =
  ID :: string
  UserID :: string
  URL :: string
  Title :: string
  Summary :: string
  Tags :: "string list"
  Status :: string
  CreatedAt :: nat
  UpdatedAt :: nat

text \<open>The zero value \<^verbatim>\<open>Article{}\<close>.\<close>

definition zero_Article :: Article where
  "zero_Article = \<lparr>ID = [], UserID = [], URL = [], Title = [], Summary = [], Tags = [],
     Status = [], CreatedAt = 0, UpdatedAt = 0\<rparr>"

text \<open>
  A row of the table \<^verbatim>\<open>articles\<close> (\<^verbatim>\<open>models/db.go\<close>); the column \<^verbatim>\<open>tags\<close> is the
  comma-joined text. The column \<^verbatim>\<open>id\<close> is the primary key.
\<close>

record row =
  col_id :: string
  col_user_id :: string
  col_url :: string
  col_title :: string
  col_summary :: string
  col_tags :: string
  col_status :: string
  col_created_at :: nat
  col_updated_at :: nat

type_synonym table = "row list"

text \<open>
  What the SQL driver does with one statement: it works, or \<^verbatim>\<open>Prepare\<close> fails, or
  \<^verbatim>\<open>Exec\<close> fails, or the statement runs and \<^verbatim>\<open>RowsAffected\<close> fails afterwards.
\<close>

datatype driver = DriverOk | PrepareFails | ExecFails | RowsAffectedFails

text \<open>What the driver does with one query.\<close>

datatype qdriver = QueryOk | QueryFails | ScanFails | RowsErrFails

text \<open>
  The errors of the model layer: \<open>DbError\<close> carries the prefix that \<^verbatim>\<open>fmt.Errorf\<close>
  puts before the driver's error, \<open>NotFoundOrNotOwned id userID\<close> is
  \<^verbatim>\<open>"article with ID '%s' not found or not owned by user '%s'"\<close>.
\<close>

datatype error = DbError string | NotFoundOrNotOwned string string

definition matches :: "string \<Rightarrow> string \<Rightarrow> row \<Rightarrow> bool" where
  \<comment> \<open>\<^verbatim>\<open>WHERE id=? AND user_id=?\<close>\<close>
  "matches i u r \<longleftrightarrow> col_id r = i \<and> col_user_id r = u"

definition rowsAffected :: "string \<Rightarrow> string \<Rightarrow> table \<Rightarrow> nat" where
  "rowsAffected i u db = length (filter (matches i u) db)"

subsection \<open>The model layer\<close>

text \<open>
  \<^verbatim>\<open>(a *Article) Save()\<close>. The arguments before the article are the driver's
  behaviour, the value \<^verbatim>\<open>GenerateUUID()\<close> would return and \<^verbatim>\<open>time.Now()\<close>. The result
  is the error (\<open>None\<close> is \<^verbatim>\<open>nil\<close>), the receiver as the call leaves it, and the table.
  The receiver is assigned before the statement is prepared, so it changes even when
  the statement fails. An \<^verbatim>\<open>INSERT\<close> of an id that is already in the table violates
  the primary key and fails in \<^verbatim>\<open>Exec\<close>; any other failure of the statement is the
  driver's \<open>ExecFails\<close>. The update branch does not look at the number of rows affected.
\<close>

definition Save :: "driver \<Rightarrow> string \<Rightarrow> nat \<Rightarrow> Article \<Rightarrow> table \<Rightarrow> error option \<times> Article \<times> table" where
  "Save d uuid now a db =
     (let tagsStr = Join (Tags a) '','' in
      if ID a = [] then
        (let a' = a\<lparr>ID := uuid, CreatedAt := now, UpdatedAt := now\<rparr> in
         if d = PrepareFails then
           (Some (DbError ''failed to prepare article insert statement''), a', db)
         else if d = ExecFails \<or> uuid \<in> set (map col_id db) then
           (Some (DbError ''failed to insert article''), a', db)
         else
           (None, a', db @ [\<lparr>col_id = ID a', col_user_id = UserID a', col_url = URL a',
              col_title = Title a', col_summary = Summary a', col_tags = tagsStr,
              col_status = Status a', col_created_at = CreatedAt a',
              col_updated_at = UpdatedAt a'\<rparr>]))
      else
        (let a' = a\<lparr>UpdatedAt := now\<rparr> in
         if d = PrepareFails then
           (Some (DbError ''failed to prepare article update statement''), a', db)
         else if d = ExecFails then
           (Some (DbError ''failed to update article''), a', db)
         else
           (None, a', map (\<lambda>r. if matches (ID a') (UserID a') r
              then r\<lparr>col_url := URL a', col_title := Title a', col_summary := Summary a',
                     col_tags := tagsStr, col_status := Status a',
                     col_updated_at := UpdatedAt a'\<rparr>
              else r) db)))"

text \<open>\<^verbatim>\<open>DeleteArticle(id, userID)\<close>: the error and the table.\<close>

definition DeleteArticle :: "driver \<Rightarrow> string \<Rightarrow> string \<Rightarrow> table \<Rightarrow> error option \<times> table" where
  "DeleteArticle d i u db =
     (if d = PrepareFails then
        (Some (DbError ''failed to prepare article delete statement''), db)
      else if d = ExecFails then (Some (DbError ''failed to delete article''), db)
      else
        (let db' = filter (\<lambda>r. \<not> matches i u r) db in
         if d = RowsAffectedFails then (Some (DbError ''failed to get rows affected''), db')
         else if rowsAffected i u db = 0 then (Some (NotFoundOrNotOwned i u), db')
         else (None, db')))"

text \<open>
  \<^verbatim>\<open>UpdateArticleStatus(id, userID, newStatus)\<close>; \<open>now\<close> is the database's
  \<^verbatim>\<open>CURRENT_TIMESTAMP\<close>.
\<close>

definition UpdateArticleStatus ::
  "driver \<Rightarrow> nat \<Rightarrow> string \<Rightarrow> string \<Rightarrow> string \<Rightarrow> table \<Rightarrow> error option \<times> table" where
  "UpdateArticleStatus d now i u newStatus db =
     (if d = PrepareFails then
        (Some (DbError ''failed to prepare article status update statement''), db)
      else if d = ExecFails then (Some (DbError ''failed to update article status''), db)
      else
        (let db' = map (\<lambda>r. if matches i u r
                   then r\<lparr>col_status := newStatus, col_updated_at := now\<rparr> else r) db in
         if d = RowsAffectedFails then (Some (DbError ''failed to get rows affected''), db')
         else if rowsAffected i u db = 0 then (Some (NotFoundOrNotOwned i u), db')
         else (None, db')))"

text \<open>\<^verbatim>\<open>UpdateArticleTags(id, userID, newTags)\<close>.\<close>

definition UpdateArticleTags ::
  "driver \<Rightarrow> nat \<Rightarrow> string \<Rightarrow> string \<Rightarrow> string list \<Rightarrow> table \<Rightarrow> error option \<times> table" where
  "UpdateArticleTags d now i u newTags db =
     (let tagsStr = Join newTags '','' in
      if d = PrepareFails then
        (Some (DbError ''failed to prepare article tags update statement''), db)
      else if d = ExecFails then (Some (DbError ''failed to update article tags''), db)
      else
        (let db' = map (\<lambda>r. if matches i u r
                   then r\<lparr>col_tags := tagsStr, col_updated_at := now\<rparr> else r) db in
         if d = RowsAffectedFails then (Some (DbError ''failed to get rows affected''), db')
         else if rowsAffected i u db = 0 then (Some (NotFoundOrNotOwned i u), db')
         else (None, db')))"

text \<open>
  What \<^verbatim>\<open>rows.Scan\<close> followed by \<^verbatim>\<open>strings.Split(tagsStr, ",")\<close> makes of a row.
\<close>

definition scan :: "row \<Rightarrow> Article" where
  "scan r = \<lparr>ID = col_id r, UserID = col_user_id r, URL = col_url r, Title = col_title r,
     Summary = col_summary r, Tags = Split (col_tags r) CHR '','', Status = col_status r,
     CreatedAt = col_created_at r, UpdatedAt = col_updated_at r\<rparr>"


text \<open>
  \<^verbatim>\<open>GetArticleByID(id, userID)\<close>: \<open>Inr None\<close> is the pair \<^verbatim>\<open>(nil, nil)\<close> that the code
  returns on \<^verbatim>\<open>sql.ErrNoRows\<close>. \<^verbatim>\<open>QueryRow\<close> takes the first row that matches; its
  \<^verbatim>\<open>Scan\<close> reports a failed query or a failed iteration first, then the absence of a row,
  then a row it cannot convert.
\<close>

definition GetArticleByID :: "qdriver \<Rightarrow> string \<Rightarrow> string \<Rightarrow> table \<Rightarrow> error + Article option" where
  "GetArticleByID q i u db =
     (if q = QueryFails \<or> q = RowsErrFails then Inl (DbError ''failed to get article by ID'')
      else (case filter (matches i u) db of
              [] \<Rightarrow> Inr None
            | r # _ \<Rightarrow>
                if q = ScanFails then Inl (DbError ''failed to get article by ID'')
                else Inr (Some (scan r))))"

subsection \<open>The ingestion pipeline\<close>

text \<open>
  The part of \<^verbatim>\<open>*http.Response\<close> the pipeline reads: the status code, what
  \<^verbatim>\<open>io.ReadAll\<close> makes of the body (an error or the bytes) and
  \<^verbatim>\<open>Request.URL.String()\<close>, the address after redirects.
\<close>

record Response =
  StatusCode :: int
  Body :: "string + string"
  RequestURL :: string

text \<open>
  A parsed document, as far as the pipeline looks at it: the text of
  \<^verbatim>\<open>doc.Find("title")\<close> and of \<^verbatim>\<open>doc.Find("body")\<close>.
\<close>

record Document =
  title_Text :: string
  body_Text :: string

text \<open>
  The world outside the repository, for one run of the pipeline. Errors of foreign
  code are their messages. \<open>GenerateContent\<close> takes the model name and the prompt; its
  result \<open>Inr None\<close> is a nil response with a nil error, \<open>Inr (Some t)\<close> is a response
  whose \<^verbatim>\<open>Text()\<close> is \<open>t\<close>.
\<close>

record World =
  httpGet :: "string \<Rightarrow> string + Response"
  NewDocumentFromReader :: "string \<Rightarrow> string + Document"
  GEMINI_API_KEY :: string
  NewClient :: "string \<Rightarrow> string + unit"
  GenerateContent :: "string \<Rightarrow> string \<Rightarrow> string + string option"
  sql_driver :: driver
  next_uuid :: string
  clock :: nat

text \<open>Where a run of the pipeline ends; \<open>Fatal\<close> is \<^verbatim>\<open>log.Fatal\<close>, which ends the process.\<close>

datatype halt = FetchFailed | BadStatus | ReadFailed | ParseFailed | Fatal | ClientFailed
  | SummaryFailed | NoSummary | TagsFailed | NoTags | SaveFailed | Processed

text \<open>
  What a run leaves behind: the article in memory, the table, the prompts of the
  \<^verbatim>\<open>GenerateContent\<close> calls in the order they were issued, the receivers of the \<^verbatim>\<open>Save\<close>
  calls as they were at the call, and where the run ended.
\<close>

record Run =
  article :: Article
  store :: table
  generate_calls :: "string list"
  save_calls :: "Article list"
  halted :: halt

definition stop :: "Article \<Rightarrow> table \<Rightarrow> string list \<Rightarrow> halt \<Rightarrow> Run" where
  \<comment> \<open>a \<^verbatim>\<open>return\<close> before any \<^verbatim>\<open>Save\<close>\<close>
  "stop a db calls h = \<lparr>article = a, store = db, generate_calls = calls, save_calls = [], halted = h\<rparr>"

definition summary_prompt :: "string \<Rightarrow> string" where
  "summary_prompt bodyText = ''Summarize the following article: '' @ bodyText"

definition tags_prompt :: "string \<Rightarrow> string" where
  "tags_prompt bodyText =
     ''Generate a comma-separated list of tags for the following article: '' @ bodyText"

text \<open>\<^verbatim>\<open>ProcessNewArticle(article)\<close>, statement by statement.\<close>

definition ProcessNewArticle :: "World \<Rightarrow> Article \<Rightarrow> table \<Rightarrow> Run" where
  "ProcessNewArticle w a db =
     (case httpGet w (URL a) of
        Inl err \<Rightarrow>
          (let a1 = a\<lparr>Status := ''failed''\<rparr>;
               (err', a2, db') = Save (sql_driver w) (next_uuid w) (clock w) a1 db
           in \<lparr>article = a2, store = db', generate_calls = [], save_calls = [a1],
                halted = FetchFailed\<rparr>)
      | Inr fullContent \<Rightarrow>
          if StatusCode fullContent \<noteq> 200 then stop a db [] BadStatus
          else (case Body fullContent of
            Inl err \<Rightarrow> stop a db [] ReadFailed
          | Inr body \<Rightarrow>
              (case NewDocumentFromReader w body of
                 Inl err \<Rightarrow> stop a db [] ParseFailed
               | Inr doc \<Rightarrow>
                   (let title = (if title_Text doc = [] then URL a else title_Text doc);
                        bodyText = body_Text doc;
                        a1 = a\<lparr>Title := title, URL := RequestURL fullContent\<rparr>;
                        apiKey = GEMINI_API_KEY w
                    in if apiKey = [] then stop a1 db [] Fatal
                       else (case NewClient w apiKey of
                         Inl err \<Rightarrow> stop a1 db [] ClientFailed
                       | Inr client \<Rightarrow>
                           (case GenerateContent w ''gemini-2.5-flash'' (summary_prompt bodyText) of
                              Inl err \<Rightarrow> stop a1 db [summary_prompt bodyText] SummaryFailed
                            | Inr None \<Rightarrow> stop a1 db [summary_prompt bodyText] NoSummary
                            | Inr (Some summaryText) \<Rightarrow>
                                (case GenerateContent w ''gemini-2.5-flash'' (tags_prompt bodyText) of
                                   Inl err \<Rightarrow>
                                     stop a1 db [summary_prompt bodyText, tags_prompt bodyText]
                                       TagsFailed
                                 | Inr None \<Rightarrow>
                                     stop a1 db [summary_prompt bodyText, tags_prompt bodyText]
                                       NoTags
                                 | Inr (Some tagsText) \<Rightarrow>
                                     (let a2 = a1\<lparr>Summary := summaryText,
                                                   Tags := Split tagsText CHR '','',
                                                   Status := ''unread''\<rparr>;
                                          (err', a3, db') =
                                            Save (sql_driver w) (next_uuid w) (clock w) a2 db
                                      in \<lparr>article = a3, store = db',
                                           generate_calls =
                                             [summary_prompt bodyText, tags_prompt bodyText],
                                           save_calls = [a2],
                                           halted = (if err' = None then Processed
                                                     else SaveFailed)\<rparr>))))))))"

subsection \<open>The article handlers\<close>

text \<open>
  What a handler writes: \<^verbatim>\<open>http.Error\<close> with a status code and a message (written here
  without the apostrophes some messages have), an article as JSON, a
  \<^verbatim>\<open>MessageResponse\<close> as JSON, or a bare status code.
\<close>

datatype reply = HttpError nat string | JsonArticle nat Article | JsonMessage nat string
  | StatusOnly nat

text \<open>
  \<^verbatim>\<open>strings.Contains(err.Error(), "not found or not owned")\<close>: the text of a
  \<open>NotFoundOrNotOwned\<close> holds the phrase whatever the id and the user are; the prefixes
  of the other errors do not.
\<close>

fun is_not_found :: "error \<Rightarrow> bool" where
  "is_not_found (NotFoundOrNotOwned i u) = True"
| "is_not_found (DbError m) = False"

text \<open>
  \<^verbatim>\<open>SubmitArticle\<close>. \<open>ctx\<close> is the value under \<^verbatim>\<open>UserIDKey\<close> when it is a string, \<open>req\<close>
  the decoded body's \<^verbatim>\<open>URL\<close> or the decoding error. The third component is the article
  handed to \<^verbatim>\<open>go services.ProcessNewArticle\<close>, when the handler gets that far.
\<close>

definition SubmitArticle ::
  "driver \<Rightarrow> string \<Rightarrow> nat \<Rightarrow> string option \<Rightarrow> string + string \<Rightarrow> table
     \<Rightarrow> reply \<times> table \<times> Article option" where
  "SubmitArticle d uuid now ctx req db =
     (case ctx of
        None \<Rightarrow> (HttpError 401 ''Unauthorized: User ID not found'', db, None)
      | Some userID \<Rightarrow>
          (case req of
             Inl err \<Rightarrow> (HttpError 400 ''Invalid request payload'', db, None)
           | Inr url \<Rightarrow>
               if url = [] then (HttpError 400 ''URL is required'', db, None)
               else
                 (let a = zero_Article\<lparr>UserID := userID, URL := url, Status := ''processing''\<rparr>;
                      (err, a', db') = Save d uuid now a db
                  in if err \<noteq> None then (HttpError 500 ''Failed to submit article'', db', None)
                     else (JsonArticle 201 a', db', Some a'))))"

text \<open>The handler \<^verbatim>\<open>DeleteArticle\<close> of package \<^verbatim>\<open>handlers\<close>.\<close>

definition DeleteArticle_handler ::
  "driver \<Rightarrow> string option \<Rightarrow> string \<Rightarrow> table \<Rightarrow> reply \<times> table" where
  "DeleteArticle_handler d ctx articleID db =
     (case ctx of
        None \<Rightarrow> (HttpError 401 ''Unauthorized: User ID not found'', db)
      | Some userID \<Rightarrow>
          if userID = [] then (HttpError 401 ''Unauthorized: User ID not found'', db)
          else if articleID = [] then (HttpError 400 ''Article ID is required'', db)
          else (case DeleteArticle d articleID userID db of
                  (Some err, db') \<Rightarrow>
                    if is_not_found err
                    then (HttpError 404 ''Article not found or not owned by user'', db')
                    else (HttpError 500 ''Failed to delete article'', db')
                | (None, db') \<Rightarrow> (StatusOnly 204, db')))"

text \<open>\<^verbatim>\<open>ReturnArticle\<close>.\<close>

definition ReturnArticle :: "qdriver \<Rightarrow> string option \<Rightarrow> string \<Rightarrow> table \<Rightarrow> reply" where
  "ReturnArticle q ctx articleID db =
     (case ctx of
        None \<Rightarrow> HttpError 401 ''Unauthorized: User ID not found''
      | Some userID \<Rightarrow>
          if userID = [] then HttpError 401 ''Unauthorized: User ID not found''
          else if articleID = [] then HttpError 400 ''Article ID is required''
          else (case GetArticleByID q articleID userID db of
                  Inl err \<Rightarrow> HttpError 500 ''Failed to fetch article''
                | Inr None \<Rightarrow> HttpError 404 ''Article not found''
                | Inr (Some a) \<Rightarrow> JsonArticle 200 a))"

text \<open>
  The handler \<^verbatim>\<open>UpdateArticleStatus\<close>; \<open>req\<close> is the decoded body's \<^verbatim>\<open>Status\<close> or the
  decoding error.
\<close>

definition UpdateArticleStatus_handler ::
  "driver \<Rightarrow> nat \<Rightarrow> string option \<Rightarrow> string \<Rightarrow> string + string \<Rightarrow> table \<Rightarrow> reply \<times> table" where
  "UpdateArticleStatus_handler d now ctx articleID req db =
     (case ctx of
        None \<Rightarrow> (HttpError 401 ''Unauthorized: User ID not found'', db)
      | Some userID \<Rightarrow>
          if articleID = [] then (HttpError 400 ''Article ID is required'', db)
          else (case req of
            Inl err \<Rightarrow> (HttpError 400 ''Invalid request payload'', db)
          | Inr status \<Rightarrow>
              if status \<noteq> ''read'' \<and> status \<noteq> ''unread''
              then (HttpError 400 ''Status must be processing, read or unread'', db)
              else (case UpdateArticleStatus d now articleID userID status db of
                      (Some err, db') \<Rightarrow>
                        if is_not_found err
                        then (HttpError 404 ''Article not found or not owned by user'', db')
                        else (HttpError 500 ''Failed to update article status'', db')
                    | (None, db') \<Rightarrow> (JsonMessage 200 ''Status updated successfully'', db'))))"

text \<open>
  The handler \<^verbatim>\<open>UpdateArticleTags\<close>; \<open>req\<close> is the decoded body's \<^verbatim>\<open>Tags\<close> or the
  decoding error.
\<close>

definition UpdateArticleTags_handler ::
  "driver \<Rightarrow> nat \<Rightarrow> string option \<Rightarrow> string \<Rightarrow> string + string list \<Rightarrow> table \<Rightarrow> reply \<times> table" where
  "UpdateArticleTags_handler d now ctx articleID req db =
     (case ctx of
        None \<Rightarrow> (HttpError 401 ''Unauthorized: User ID not found'', db)
      | Some userID \<Rightarrow>
          if articleID = [] then (HttpError 400 ''Article ID is required'', db)
          else (case req of
            Inl err \<Rightarrow> (HttpError 400 ''Invalid request payload'', db)
          | Inr tags \<Rightarrow>
              if length tags = 0 then (HttpError 400 ''Tags cannot be empty'', db)
              else (case UpdateArticleTags d now articleID userID tags db of
                      (Some err, db') \<Rightarrow>
                        if is_not_found err
                        then (HttpError 404 ''Article not found or not owned by user'', db')
                        else (HttpError 500 ''Failed to update article tags'', db')
                    | (None, db') \<Rightarrow> (JsonMessage 200 ''Tags updated successfully'', db'))))"

subsection \<open>Properties of tables and example values\<close>

text \<open>
  Two relations between the table before and after an operation. \<open>keeps_owner\<close>: every
  row whose id was in the table before belongs to an owner that id had before.
  \<open>no_reprocessing\<close>: a row whose id was in the table before has the status
  \<^verbatim>\<open>processing\<close> only if a row of that id had it before.
\<close>

definition ids :: "table \<Rightarrow> string set" where
  "ids db = set (map col_id db)"

definition keeps_owner :: "table \<Rightarrow> table \<Rightarrow> bool" where
  "keeps_owner db db' \<longleftrightarrow>
     (\<forall>r'\<in>set db'. col_id r' \<in> ids db \<longrightarrow>
        (\<exists>r\<in>set db. col_id r = col_id r' \<and> col_user_id r = col_user_id r'))"

definition no_reprocessing :: "table \<Rightarrow> table \<Rightarrow> bool" where
  "no_reprocessing db db' \<longleftrightarrow>
     (\<forall>r'\<in>set db'. col_id r' \<in> ids db \<and> col_status r' = ''processing'' \<longrightarrow>
        (\<exists>r\<in>set db. col_id r = col_id r' \<and> col_status r = ''processing''))"



text \<open>
  The row that \<^verbatim>\<open>SubmitArticle\<close> inserts for a user and a URL, given the UUID and the
  time, and the article it hands to the pipeline.
\<close>

definition created_row :: "string \<Rightarrow> nat \<Rightarrow> string \<Rightarrow> string \<Rightarrow> row" where
  "created_row uuid now userID url =
     \<lparr>col_id = uuid, col_user_id = userID, col_url = url, col_title = [], col_summary = [],
      col_tags = [], col_status = ''processing'', col_created_at = now, col_updated_at = now\<rparr>"

definition created_article :: "string \<Rightarrow> nat \<Rightarrow> string \<Rightarrow> string \<Rightarrow> Article" where
  "created_article uuid now userID url =
     \<lparr>ID = uuid, UserID = userID, URL = url, Title = [], Summary = [], Tags = [],
      Status = ''processing'', CreatedAt = now, UpdatedAt = now\<rparr>"

text \<open>
  An example world: the page \<^verbatim>\<open><title>T</title><body>B</body>\<close> is fetched without a
  redirect, the summary is \<^verbatim>\<open>S\<close> and the tag text is \<^verbatim>\<open>t1,t2\<close>. The example article
  was submitted by user \<^verbatim>\<open>u1\<close> at time 10 and got the id \<^verbatim>\<open>id-1\<close>.
\<close>

definition example_world :: World where
  "example_world =
     \<lparr>httpGet = (\<lambda>url. Inr \<lparr>StatusCode = 200, Body = Inr ''<title>T</title><body>B</body>'',
                              RequestURL = url\<rparr>),
      NewDocumentFromReader = (\<lambda>body. Inr \<lparr>title_Text = ''T'', body_Text = ''B''\<rparr>),
      GEMINI_API_KEY = ''key'',
      NewClient = (\<lambda>apiKey. Inr ()),
      GenerateContent = (\<lambda>model prompt.
         if prompt = summary_prompt ''B'' then Inr (Some ''S'') else Inr (Some ''t1,t2'')),
      sql_driver = DriverOk,
      next_uuid = ''id-2'',
      clock = 20\<rparr>"

definition example_article :: Article where
  "example_article = created_article ''id-1'' 10 ''u1'' ''http://x.test/a''"

definition example_table :: table where
  "example_table = [created_row ''id-1'' 10 ''u1'' ''http://x.test/a'']"

text \<open>
  Two conditions on the world of a run. \<open>reaches_extraction\<close>: the fetch answers 200, the
  body is read and parsed into \<open>doc\<close>, so that the run gets to the title and the body
  text. \<open>title_of\<close> is the title the run then assigns, \<open>extracted\<close> the article after
  extraction (lines 52 to 59 of the pipeline). \<open>enrichment_ready\<close>: the API key is set
  and the client is created, so that the run gets to the first \<^verbatim>\<open>GenerateContent\<close> call.
\<close>

definition reaches_extraction :: "World \<Rightarrow> Article \<Rightarrow> Response \<Rightarrow> string \<Rightarrow> Document \<Rightarrow> bool" where
  "reaches_extraction w a resp body doc \<longleftrightarrow>
     httpGet w (URL a) = Inr resp \<and> StatusCode resp = 200 \<and> Body resp = Inr body
     \<and> NewDocumentFromReader w body = Inr doc"

definition title_of :: "Article \<Rightarrow> Document \<Rightarrow> string" where
  "title_of a doc = (if title_Text doc = [] then URL a else title_Text doc)"

definition extracted :: "Article \<Rightarrow> Response \<Rightarrow> Document \<Rightarrow> Article" where
  "extracted a resp doc = a\<lparr>Title := title_of a doc, URL := RequestURL resp\<rparr>"

definition enrichment_ready :: "World \<Rightarrow> bool" where
  "enrichment_ready w \<longleftrightarrow>
     GEMINI_API_KEY w \<noteq> [] \<and> NewClient w (GEMINI_API_KEY w) = Inr ()"

definition summary_reply :: "World \<Rightarrow> Document \<Rightarrow> string + string option" where
  "summary_reply w doc = GenerateContent w ''gemini-2.5-flash'' (summary_prompt (body_Text doc))"

definition tags_reply :: "World \<Rightarrow> Document \<Rightarrow> string + string option" where
  "tags_reply w doc = GenerateContent w ''gemini-2.5-flash'' (tags_prompt (body_Text doc))"

section \<open>Verification\<close>

subsection \<open>Splitting and joining\<close>

lemma Split_Nil: "Split [] sep = [[]]"
  by (simp add: Split.simps)

lemma Split_Cons:
  "Split (c # cs) sep =
     (if c = sep then [] # Split cs sep
      else (c # hd (Split cs sep)) # tl (Split cs sep))"
proof (cases "c = sep")
  case True
  then show ?thesis by (subst Split.simps) simp
next
  case False
  show ?thesis
  proof (cases "sep \<in> set cs")
    case True
    have "Split cs sep =
        takeWhile (\<lambda>c. c \<noteq> sep) cs # Split (tl (dropWhile (\<lambda>c. c \<noteq> sep) cs)) sep"
      using True by (subst Split.simps) simp
    moreover have "Split (c # cs) sep =
        (c # takeWhile (\<lambda>c. c \<noteq> sep) cs) # Split (tl (dropWhile (\<lambda>c. c \<noteq> sep) cs)) sep"
      using True False by (subst Split.simps) simp
    ultimately show ?thesis using False by simp
  next
    case no: False
    have "Split cs sep = [cs]" using no by (subst Split.simps) simp
    moreover have "Split (c # cs) sep = [c # cs]" using no False by (subst Split.simps) simp
    ultimately show ?thesis using False by simp
  qed
qed

lemma Split_not_Nil: "Split s sep \<noteq> []"
  by (subst Split.simps) simp





lemma Join_Split: "Join (Split s sep) [sep] = s"
proof (induction s)
  case Nil
  then show ?case by (simp add: Split_Nil)
next
  case (Cons c cs)
  obtain w ws where sp: "Split cs sep = w # ws"
    using Split_not_Nil [of cs sep] by (cases "Split cs sep") auto
  show ?case
  proof (cases "c = sep")
    case True
    with Cons sp show ?thesis by (simp add: Split_Cons)
  next
    case False
    with Cons sp show ?thesis by (cases ws) (auto simp: Split_Cons)
  qed
qed



subsection \<open>Statements that match no row\<close>

lemma filter_matches_none:
  "\<forall>r\<in>set db. \<not> matches i u r \<Longrightarrow> filter (matches i u) db = []"
  by (induction db) auto

lemma filter_not_matches_none:
  "\<forall>r\<in>set db. \<not> matches i u r \<Longrightarrow> filter (\<lambda>r. \<not> matches i u r) db = db"
  by (induction db) auto

lemma map_matches_none:
  "\<forall>r\<in>set db. \<not> matches i u r \<Longrightarrow> map (\<lambda>r. if matches i u r then f r else r) db = db"
  by (induction db) auto

lemma rowsAffected_none:
  "\<forall>r\<in>set db. \<not> matches i u r \<Longrightarrow> rowsAffected i u db = 0"
  by (simp add: rowsAffected_def filter_matches_none)

lemma UpdateArticleStatus_none:
  assumes "\<forall>r\<in>set db. \<not> matches i u r"
  shows "UpdateArticleStatus d now i u s db =
    (Some (if d = PrepareFails then DbError ''failed to prepare article status update statement''
           else if d = ExecFails then DbError ''failed to update article status''
           else if d = RowsAffectedFails then DbError ''failed to get rows affected''
           else NotFoundOrNotOwned i u), db)"
  using assms
  by (simp add: UpdateArticleStatus_def Let_def map_matches_none rowsAffected_none)

lemma UpdateArticleTags_none:
  assumes "\<forall>r\<in>set db. \<not> matches i u r"
  shows "UpdateArticleTags d now i u ts db =
    (Some (if d = PrepareFails then DbError ''failed to prepare article tags update statement''
           else if d = ExecFails then DbError ''failed to update article tags''
           else if d = RowsAffectedFails then DbError ''failed to get rows affected''
           else NotFoundOrNotOwned i u), db)"
  using assms
  by (simp add: UpdateArticleTags_def Let_def map_matches_none rowsAffected_none)

lemma DeleteArticle_none:
  assumes "\<forall>r\<in>set db. \<not> matches i u r"
  shows "DeleteArticle d i u db =
    (Some (if d = PrepareFails then DbError ''failed to prepare article delete statement''
           else if d = ExecFails then DbError ''failed to delete article''
           else if d = RowsAffectedFails then DbError ''failed to get rows affected''
           else NotFoundOrNotOwned i u), db)"
  using assms
  by (simp add: DeleteArticle_def Let_def filter_not_matches_none rowsAffected_none)

lemma absent_id_matches_none: "i \<notin> ids db \<Longrightarrow> \<forall>r\<in>set db. \<not> matches i u r"
  by (auto simp: ids_def matches_def)

lemma UpdateArticleStatus_handler_none:
  assumes "\<forall>r\<in>set db. \<not> matches i u r"
  shows "UpdateArticleStatus_handler d now (Some u) i (Inr s) db =
    (if i = [] then HttpError 400 ''Article ID is required''
     else if s \<noteq> ''read'' \<and> s \<noteq> ''unread''
       then HttpError 400 ''Status must be processing, read or unread''
     else if d = DriverOk then HttpError 404 ''Article not found or not owned by user''
     else HttpError 500 ''Failed to update article status'', db)"
  using UpdateArticleStatus_none [OF assms, of d now s]
  by (cases d) (simp_all add: UpdateArticleStatus_handler_def)

lemma UpdateArticleTags_handler_none:
  assumes "\<forall>r\<in>set db. \<not> matches i u r"
  shows "UpdateArticleTags_handler d now (Some u) i (Inr ts) db =
    (if i = [] then HttpError 400 ''Article ID is required''
     else if ts = [] then HttpError 400 ''Tags cannot be empty''
     else if d = DriverOk then HttpError 404 ''Article not found or not owned by user''
     else HttpError 500 ''Failed to update article tags'', db)"
  using UpdateArticleTags_none [OF assms, of d now ts]
  by (cases d) (simp_all add: UpdateArticleTags_handler_def)

lemma DeleteArticle_handler_none:
  assumes "\<forall>r\<in>set db. \<not> matches i u r"
  shows "DeleteArticle_handler d (Some u) i db =
    (if u = [] then HttpError 401 ''Unauthorized: User ID not found''
     else if i = [] then HttpError 400 ''Article ID is required''
     else if d = DriverOk then HttpError 404 ''Article not found or not owned by user''
     else HttpError 500 ''Failed to delete article'', db)"
  using DeleteArticle_none [OF assms, of d]
  by (cases d) (simp_all add: DeleteArticle_handler_def)

text \<open>
  C4. When no row has both the id and the owner, each of \<open>UpdateArticleStatus\<close>,
  \<open>UpdateArticleTags\<close> and \<open>DeleteArticle\<close> returns the not-found error (the driver
  working) and leaves the table as it is. Whatever the driver does, the error returned
  and the handler's reply are the same as for any table in which the id does not occur
  at all, so an id under another owner cannot be told from an id that does not exist.
\<close>

theorem mutations_not_found:
  assumes "\<forall>r\<in>set db. \<not> matches i u r"
  shows "UpdateArticleStatus DriverOk now i u s db = (Some (NotFoundOrNotOwned i u), db)
       \<and> UpdateArticleTags DriverOk now i u ts db = (Some (NotFoundOrNotOwned i u), db)
       \<and> DeleteArticle DriverOk i u db = (Some (NotFoundOrNotOwned i u), db)
       \<and> (\<forall>d db2. i \<notin> ids db2 \<longrightarrow>
            fst (UpdateArticleStatus d now i u s db) = fst (UpdateArticleStatus d now i u s db2)
          \<and> fst (UpdateArticleTags d now i u ts db) = fst (UpdateArticleTags d now i u ts db2)
          \<and> fst (DeleteArticle d i u db) = fst (DeleteArticle d i u db2)
          \<and> snd (UpdateArticleStatus d now i u s db) = db
          \<and> snd (UpdateArticleTags d now i u ts db) = db
          \<and> snd (DeleteArticle d i u db) = db
          \<and> fst (UpdateArticleStatus_handler d now (Some u) i (Inr s) db)
              = fst (UpdateArticleStatus_handler d now (Some u) i (Inr s) db2)
          \<and> fst (UpdateArticleTags_handler d now (Some u) i (Inr ts) db)
              = fst (UpdateArticleTags_handler d now (Some u) i (Inr ts) db2)
          \<and> fst (DeleteArticle_handler d (Some u) i db)
              = fst (DeleteArticle_handler d (Some u) i db2))"
proof -
  note none = assms
  have st: "UpdateArticleStatus DriverOk now i u s db = (Some (NotFoundOrNotOwned i u), db)"
    by (simp add: UpdateArticleStatus_none [OF none])
  have tg: "UpdateArticleTags DriverOk now i u ts db = (Some (NotFoundOrNotOwned i u), db)"
    by (simp add: UpdateArticleTags_none [OF none])
  have dl: "DeleteArticle DriverOk i u db = (Some (NotFoundOrNotOwned i u), db)"
    by (simp add: DeleteArticle_none [OF none])
  have same: "fst (UpdateArticleStatus d now i u s db) = fst (UpdateArticleStatus d now i u s db2)
          \<and> fst (UpdateArticleTags d now i u ts db) = fst (UpdateArticleTags d now i u ts db2)
          \<and> fst (DeleteArticle d i u db) = fst (DeleteArticle d i u db2)
          \<and> snd (UpdateArticleStatus d now i u s db) = db
          \<and> snd (UpdateArticleTags d now i u ts db) = db
          \<and> snd (DeleteArticle d i u db) = db
          \<and> fst (UpdateArticleStatus_handler d now (Some u) i (Inr s) db)
              = fst (UpdateArticleStatus_handler d now (Some u) i (Inr s) db2)
          \<and> fst (UpdateArticleTags_handler d now (Some u) i (Inr ts) db)
              = fst (UpdateArticleTags_handler d now (Some u) i (Inr ts) db2)
          \<and> fst (DeleteArticle_handler d (Some u) i db)
              = fst (DeleteArticle_handler d (Some u) i db2)"
    if absent: "i \<notin> ids db2" for d db2
  proof -
    note none2 = absent_id_matches_none [OF absent, of u]
    show ?thesis
      unfolding UpdateArticleStatus_none [OF none] UpdateArticleStatus_none [OF none2]
          UpdateArticleTags_none [OF none] UpdateArticleTags_none [OF none2]
          DeleteArticle_none [OF none] DeleteArticle_none [OF none2]
          UpdateArticleStatus_handler_none [OF none] UpdateArticleStatus_handler_none [OF none2]
          UpdateArticleTags_handler_none [OF none] UpdateArticleTags_handler_none [OF none2]
          DeleteArticle_handler_none [OF none] DeleteArticle_handler_none [OF none2]
      by simp
  qed
  from st tg dl same show ?thesis by blast
qed

text \<open>
  The theorem at work: the article \<^verbatim>\<open>id-1\<close> belongs to \<^verbatim>\<open>u1\<close>; user \<^verbatim>\<open>u2\<close> gets the
  answer that an empty table gives.
\<close>

theorem mutations_not_found_witness:
  "list_all (\<lambda>r. \<not> matches ''id-1'' ''u2'' r) example_table
   \<and> ''id-1'' \<in> ids example_table \<and> ''id-1'' \<notin> ids []
   \<and> UpdateArticleStatus DriverOk 30 ''id-1'' ''u2'' ''read'' example_table
        = (Some (NotFoundOrNotOwned ''id-1'' ''u2''), example_table)
   \<and> UpdateArticleTags DriverOk 30 ''id-1'' ''u2'' [''t''] example_table
        = (Some (NotFoundOrNotOwned ''id-1'' ''u2''), example_table)
   \<and> DeleteArticle DriverOk ''id-1'' ''u2'' example_table
        = (Some (NotFoundOrNotOwned ''id-1'' ''u2''), example_table)
   \<and> fst (DeleteArticle DriverOk ''id-1'' ''u2'' example_table)
        = fst (DeleteArticle DriverOk ''id-1'' ''u2'' [])
   \<and> fst (UpdateArticleStatus_handler DriverOk 30 (Some ''u2'') ''id-1'' (Inr ''read'') example_table)
        = fst (UpdateArticleStatus_handler DriverOk 30 (Some ''u2'') ''id-1'' (Inr ''read'') [])"
proof -
  have h: "\<forall>r\<in>set example_table. \<not> matches ''id-1'' ''u2'' r"
    by (simp add: example_table_def created_row_def matches_def)
  have i: "''id-1'' \<in> ids example_table" "''id-1'' \<notin> ids []"
    by (simp_all add: example_table_def created_row_def ids_def)
  from mutations_not_found [OF h, of 30 "''read''" "[''t'']"] h i show ?thesis
    unfolding list_all_iff by blast
qed

subsection \<open>Reading an article that is not there\<close>

lemma GetArticleByID_none:
  "\<forall>r\<in>set db. \<not> matches i u r \<Longrightarrow> GetArticleByID QueryOk i u db = Inr None"
  by (simp add: GetArticleByID_def filter_matches_none)

lemma GetArticleByID_never_not_found: "GetArticleByID q i u db \<noteq> Inl (NotFoundOrNotOwned i' u')"
  by (simp add: GetArticleByID_def split: list.splits)

text \<open>
  C10. When no row has both the id and the owner (the id absent, or under another
  owner), \<open>GetArticleByID\<close> returns no article and no error, and it never returns the
  not-found error of the mutations. The handler \<open>ReturnArticle\<close> answers 404 to this.
\<close>

theorem read_miss_is_not_an_error:
  assumes "\<forall>r\<in>set db. \<not> matches i u r"
  shows "GetArticleByID QueryOk i u db = Inr None
       \<and> (\<forall>q. GetArticleByID q i u db \<noteq> Inl (NotFoundOrNotOwned i u))
       \<and> UpdateArticleStatus DriverOk now i u s db = (Some (NotFoundOrNotOwned i u), db)
       \<and> (u \<noteq> [] \<and> i \<noteq> [] \<longrightarrow>
            ReturnArticle QueryOk (Some u) i db = HttpError 404 ''Article not found'')"
  using assms
  by (simp add: GetArticleByID_none GetArticleByID_never_not_found ReturnArticle_def
      UpdateArticleStatus_none)

theorem read_miss_is_not_an_error_witness:
  "list_all (\<lambda>r. \<not> matches ''id-1'' ''u2'' r) example_table
   \<and> list_all (\<lambda>r. \<not> matches ''id-9'' ''u1'' r) example_table
   \<and> ''u2'' \<noteq> [] \<and> ''id-1'' \<noteq> []
   \<and> GetArticleByID QueryOk ''id-1'' ''u2'' example_table = Inr None
   \<and> GetArticleByID QueryOk ''id-9'' ''u1'' example_table = Inr None
   \<and> ReturnArticle QueryOk (Some ''u2'') ''id-1'' example_table = HttpError 404 ''Article not found''"
proof -
  have h1: "\<forall>r\<in>set example_table. \<not> matches ''id-1'' ''u2'' r"
    and h2: "\<forall>r\<in>set example_table. \<not> matches ''id-9'' ''u1'' r"
    by (simp_all add: example_table_def created_row_def matches_def)
  from read_miss_is_not_an_error [OF h1] read_miss_is_not_an_error [OF h2] h1 h2
  show ?thesis unfolding list_all_iff by simp
qed

subsection \<open>What \<open>Save\<close> writes\<close>

lemma Save_update:
  assumes "ID a \<noteq> []" "d \<noteq> PrepareFails" "d \<noteq> ExecFails"
  shows "Save d uuid now a db =
    (None, a\<lparr>UpdatedAt := now\<rparr>,
     map (\<lambda>r. if matches (ID a) (UserID a) r
       then r\<lparr>col_url := URL a, col_title := Title a, col_summary := Summary a,
              col_tags := Join (Tags a) '','', col_status := Status a,
              col_updated_at := now\<rparr>
       else r) db)"
  using assms by (simp add: Save_def Let_def)


lemma Save_failed:
  assumes "Save d uuid now a db = (Some e, a', db')"
  shows "db' = db"
  using assms by (auto simp: Save_def Let_def split: if_splits)


lemma filter_matches_map_update:
  "filter (matches i u) (map (\<lambda>r. if matches i u r then f r else r) db)
     = map f (filter (matches i u) db)"
  if "\<And>r. matches i u r \<Longrightarrow> matches i u (f r)"
  using that by (induction db) auto

lemma scan_tags: "Tags (scan r) = Split (col_tags r) CHR '',''"
  by (simp add: scan_def)






subsection \<open>Submission\<close>

text \<open>
  What a successful submission leaves: the created row at the end of the table, and the
  created article in the reply and in the hands of the pipeline.
\<close>

lemma SubmitArticle_creates:
  assumes "url \<noteq> []" "d \<noteq> PrepareFails" "d \<noteq> ExecFails" "uuid \<notin> ids db"
  shows "SubmitArticle d uuid now (Some u) (Inr url) db =
    (JsonArticle 201 (created_article uuid now u url), db @ [created_row uuid now u url],
     Some (created_article uuid now u url))"
  using assms
  by (simp add: SubmitArticle_def Save_def Let_def zero_Article_def created_article_def
      created_row_def ids_def)

lemma SubmitArticle_spawns:
  assumes "SubmitArticle d uuid now ctx req db = (rep, db', Some a)"
  shows "\<exists>u url. ctx = Some u \<and> req = Inr url \<and> url \<noteq> [] \<and> uuid \<notin> ids db
           \<and> a = created_article uuid now u url \<and> db' = db @ [created_row uuid now u url]
           \<and> rep = JsonArticle 201 a"
  using assms
  by (auto simp: SubmitArticle_def Save_def Let_def zero_Article_def created_article_def
      created_row_def ids_def split: option.splits sum.splits if_splits)

lemma created_row_update:
  assumes "uuid \<notin> ids db0"
  shows "map (\<lambda>r. if matches uuid u r then f r else r) (db0 @ [created_row uuid now u url])
       = db0 @ [f (created_row uuid now u url)]"
proof -
  from assms have "\<forall>r\<in>set db0. \<not> matches uuid u r" by (rule absent_id_matches_none)
  then have "map (\<lambda>r. if matches uuid u r then f r else r) db0 = db0"
    by (rule map_matches_none)
  moreover have "matches uuid u (created_row uuid now u url)"
    by (simp add: matches_def created_row_def)
  ultimately show ?thesis by simp
qed

subsection \<open>The pipeline when the fetch fails\<close>

lemma ProcessNewArticle_fetch_error:
  assumes "httpGet w (URL a) = Inl e"
  shows "ProcessNewArticle w a db =
    \<lparr>article = fst (snd (Save (sql_driver w) (next_uuid w) (clock w) (a\<lparr>Status := ''failed''\<rparr>) db)),
     store = snd (snd (Save (sql_driver w) (next_uuid w) (clock w) (a\<lparr>Status := ''failed''\<rparr>) db)),
     generate_calls = [], save_calls = [a\<lparr>Status := ''failed''\<rparr>], halted = FetchFailed\<rparr>"
  using assms by (simp add: ProcessNewArticle_def Let_def split: prod.splits)

lemma Save_receiver:
  "fst (snd (Save d uuid now a db)) =
     (if ID a = [] then a\<lparr>ID := uuid, CreatedAt := now, UpdatedAt := now\<rparr>
      else a\<lparr>UpdatedAt := now\<rparr>)"
  by (simp add: Save_def Let_def)

text \<open>
  C1. When \<^verbatim>\<open>http.Get\<close> returns an error, the pipeline sets the status \<^verbatim>\<open>failed\<close> and
  calls \<open>Save\<close> once, on the article with that status and with the title, the summary and
  the tags it was handed; no enrichment call is made. When \<open>Save\<close> reaches the table
  (the article has its id and the driver works), the rows of the article get the status
  \<^verbatim>\<open>failed\<close>. For an article as \<open>SubmitArticle\<close> created it, the stored row is the
  created row with only the status and the update time changed, so title, summary and
  tags are the creation defaults.
\<close>

theorem fetch_error_marks_failed:
  assumes "httpGet w (URL a) = Inl e"
  shows "halted (ProcessNewArticle w a db) = FetchFailed
    \<and> save_calls (ProcessNewArticle w a db) = [a\<lparr>Status := ''failed''\<rparr>]
    \<and> store (ProcessNewArticle w a db)
        = snd (snd (Save (sql_driver w) (next_uuid w) (clock w) (a\<lparr>Status := ''failed''\<rparr>) db))
    \<and> generate_calls (ProcessNewArticle w a db) = []
    \<and> Status (article (ProcessNewArticle w a db)) = ''failed''
    \<and> Title (article (ProcessNewArticle w a db)) = Title a
    \<and> Summary (article (ProcessNewArticle w a db)) = Summary a
    \<and> Tags (article (ProcessNewArticle w a db)) = Tags a
    \<and> (ID a \<noteq> [] \<and> sql_driver w \<noteq> PrepareFails \<and> sql_driver w \<noteq> ExecFails \<longrightarrow>
          store (ProcessNewArticle w a db) =
            map (\<lambda>r. if matches (ID a) (UserID a) r
              then r\<lparr>col_url := URL a, col_title := Title a, col_summary := Summary a,
                     col_tags := Join (Tags a) '','', col_status := ''failed'',
                     col_updated_at := clock w\<rparr>
              else r) db)
    \<and> (a = created_article uuid now u url \<and> db = db0 @ [created_row uuid now u url]
          \<and> uuid \<noteq> [] \<and> uuid \<notin> ids db0
          \<and> sql_driver w \<noteq> PrepareFails \<and> sql_driver w \<noteq> ExecFails \<longrightarrow>
          store (ProcessNewArticle w a db) =
            db0 @ [(created_row uuid now u url)\<lparr>col_status := ''failed'',
                                               col_updated_at := clock w\<rparr>])"
proof -
  note run = ProcessNewArticle_fetch_error [OF assms, of db]
  have upd: "store (ProcessNewArticle w a db) =
      map (\<lambda>r. if matches (ID a) (UserID a) r
        then r\<lparr>col_url := URL a, col_title := Title a, col_summary := Summary a,
               col_tags := Join (Tags a) '','', col_status := ''failed'',
               col_updated_at := clock w\<rparr>
        else r) db"
    if "ID a \<noteq> []" "sql_driver w \<noteq> PrepareFails" "sql_driver w \<noteq> ExecFails"
    using that by (simp add: run Save_update)
  have e2e: "store (ProcessNewArticle w a db) =
      db0 @ [(created_row uuid now u url)\<lparr>col_status := ''failed'', col_updated_at := clock w\<rparr>]"
    if a: "a = created_article uuid now u url" and db: "db = db0 @ [created_row uuid now u url]"
      and uuid: "uuid \<noteq> []" "uuid \<notin> ids db0"
      and drv: "sql_driver w \<noteq> PrepareFails" "sql_driver w \<noteq> ExecFails"
  proof -
    have ida: "ID a = uuid" "UserID a = u" by (simp_all add: a created_article_def)
    from uuid(1) ida have "ID a \<noteq> []" by simp
    from upd [OF this drv] show ?thesis
      unfolding ida db created_row_update [OF uuid(2)]
      by (simp add: a created_article_def created_row_def)
  qed
  show ?thesis
    using upd e2e by (simp add: run Save_receiver)
qed

text \<open>
  The theorem at work: the example article was submitted and the connection is refused.
\<close>

theorem fetch_error_marks_failed_witness:
  "httpGet (example_world\<lparr>httpGet := \<lambda>url. Inl ''connection refused''\<rparr>) (URL example_article)
     = Inl ''connection refused''
   \<and> SubmitArticle DriverOk ''id-1'' 10 (Some ''u1'') (Inr ''http://x.test/a'') []
       = (JsonArticle 201 example_article, example_table, Some example_article)
   \<and> ID example_article \<noteq> []
   \<and> Status (article (ProcessNewArticle
         (example_world\<lparr>httpGet := \<lambda>url. Inl ''connection refused''\<rparr>)
         example_article example_table)) = ''failed''
   \<and> store (ProcessNewArticle
         (example_world\<lparr>httpGet := \<lambda>url. Inl ''connection refused''\<rparr>)
         example_article example_table)
       = [\<lparr>col_id = ''id-1'', col_user_id = ''u1'', col_url = ''http://x.test/a'',
           col_title = [], col_summary = [], col_tags = [], col_status = ''failed'',
           col_created_at = 10, col_updated_at = 20\<rparr>]"
proof -
  define w where "w = example_world\<lparr>httpGet := \<lambda>url. Inl ''connection refused''\<rparr>"
  have h: "httpGet w (URL example_article) = Inl ''connection refused''"
    by (simp add: w_def)
  have sub: "SubmitArticle DriverOk ''id-1'' 10 (Some ''u1'') (Inr ''http://x.test/a'') []
       = (JsonArticle 201 example_article, example_table, Some example_article)"
    by (simp add: SubmitArticle_creates ids_def example_article_def example_table_def)
  have drv: "sql_driver w = DriverOk" "clock w = 20" by (simp_all add: w_def example_world_def)
  have nd: "sql_driver w \<noteq> PrepareFails" "sql_driver w \<noteq> ExecFails"
    by (simp_all add: drv)
  have a: "example_article = created_article ''id-1'' 10 ''u1'' ''http://x.test/a''"
    by (simp add: example_article_def)
  have t: "example_table = [] @ [created_row ''id-1'' 10 ''u1'' ''http://x.test/a'']"
    by (simp add: example_table_def)
  have u: "''id-1'' \<noteq> []" "''id-1'' \<notin> ids []"
    by (simp_all add: ids_def)
  have i: "ID example_article \<noteq> []" by (simp add: example_article_def created_article_def)
  note th = fetch_error_marks_failed [OF h, where db = example_table and uuid = "''id-1''"
      and now = 10 and u = "''u1''" and url = "''http://x.test/a''" and ?db0.0 = "[]"]
  from th have st: "Status (article (ProcessNewArticle w example_article example_table)) = ''failed''"
    by blast
  from th a t u nd
  have "store (ProcessNewArticle w example_article example_table) =
      [] @ [(created_row ''id-1'' 10 ''u1'' ''http://x.test/a'')\<lparr>col_status := ''failed'',
                                               col_updated_at := clock w\<rparr>]"
    by blast
  then have "store (ProcessNewArticle w example_article example_table) =
      [\<lparr>col_id = ''id-1'', col_user_id = ''u1'', col_url = ''http://x.test/a'',
           col_title = [], col_summary = [], col_tags = [], col_status = ''failed'',
           col_created_at = 10, col_updated_at = 20\<rparr>]"
    by (simp add: created_row_def drv)
  with h sub i st show ?thesis unfolding w_def by blast
qed

subsection \<open>The pipeline when the page is not served\<close>

lemma ProcessNewArticle_bad_status:
  assumes "httpGet w (URL a) = Inr resp" "StatusCode resp \<noteq> 200"
  shows "ProcessNewArticle w a db = stop a db [] BadStatus"
  using assms by (simp add: ProcessNewArticle_def)

text \<open>
  C2. When the fetch returns a response whose status code is not 200 (which covers every
  non-success code), the pipeline stops at once: \<open>Save\<close> is not called, the table is the
  table it was given, and so is the article. What \<open>GetArticleByID\<close> reads afterwards is
  what it read before, so an article that was \<^verbatim>\<open>processing\<close> stays so.
\<close>

theorem bad_status_writes_nothing:
  assumes "httpGet w (URL a) = Inr resp" "StatusCode resp \<noteq> 200"
  shows "halted (ProcessNewArticle w a db) = BadStatus
    \<and> save_calls (ProcessNewArticle w a db) = []
    \<and> generate_calls (ProcessNewArticle w a db) = []
    \<and> store (ProcessNewArticle w a db) = db
    \<and> article (ProcessNewArticle w a db) = a
    \<and> GetArticleByID q (ID a) (UserID a) (store (ProcessNewArticle w a db))
        = GetArticleByID q (ID a) (UserID a) db"
  by (simp add: ProcessNewArticle_bad_status [OF assms] stop_def)

text \<open>The theorem at work: the server answers 404 for the example article.\<close>

theorem bad_status_writes_nothing_witness:
  "httpGet (example_world\<lparr>httpGet := \<lambda>url. Inr \<lparr>StatusCode = 404, Body = Inr [],
        RequestURL = url\<rparr>\<rparr>) (URL example_article)
     = Inr \<lparr>StatusCode = 404, Body = Inr [], RequestURL = ''http://x.test/a''\<rparr>
   \<and> StatusCode \<lparr>StatusCode = 404, Body = Inr [], RequestURL = ''http://x.test/a''\<rparr> \<noteq> 200
   \<and> store (ProcessNewArticle (example_world\<lparr>httpGet := \<lambda>url. Inr \<lparr>StatusCode = 404,
        Body = Inr [], RequestURL = url\<rparr>\<rparr>) example_article example_table) = example_table
   \<and> map col_status example_table = [''processing'']
   \<and> save_calls (ProcessNewArticle (example_world\<lparr>httpGet := \<lambda>url. Inr \<lparr>StatusCode = 404,
        Body = Inr [], RequestURL = url\<rparr>\<rparr>) example_article example_table) = []"
proof -
  define w where "w = example_world\<lparr>httpGet := \<lambda>url. Inr \<lparr>StatusCode = 404, Body = Inr [],
        RequestURL = url\<rparr>\<rparr>"
  define resp :: Response
    where "resp = \<lparr>StatusCode = 404, Body = Inr [], RequestURL = ''http://x.test/a''\<rparr>"
  have h1: "httpGet w (URL example_article) = Inr resp"
    by (simp add: w_def resp_def example_article_def created_article_def)
  have h2: "StatusCode resp \<noteq> 200" by (simp add: resp_def)
  have st: "map col_status example_table = [''processing'']"
    by (simp add: example_table_def created_row_def)
  note th = bad_status_writes_nothing [OF h1 h2, of example_table]
  from th have "store (ProcessNewArticle w example_article example_table) = example_table"
    and "save_calls (ProcessNewArticle w example_article example_table) = []"
    by blast+
  with h1 h2 st show ?thesis unfolding w_def resp_def by blast
qed

subsection \<open>The pipeline after extraction\<close>

text \<open>The run from the API key on, once the page is parsed.\<close>

lemma ProcessNewArticle_extracted:
  assumes "reaches_extraction w a resp body doc"
  shows "ProcessNewArticle w a db =
    (if GEMINI_API_KEY w = [] then stop (extracted a resp doc) db [] Fatal
     else case NewClient w (GEMINI_API_KEY w) of
       Inl err \<Rightarrow> stop (extracted a resp doc) db [] ClientFailed
     | Inr client \<Rightarrow>
        (case summary_reply w doc of
           Inl err \<Rightarrow> stop (extracted a resp doc) db [summary_prompt (body_Text doc)] SummaryFailed
         | Inr None \<Rightarrow> stop (extracted a resp doc) db [summary_prompt (body_Text doc)] NoSummary
         | Inr (Some summaryText) \<Rightarrow>
            (case tags_reply w doc of
               Inl err \<Rightarrow> stop (extracted a resp doc) db
                   [summary_prompt (body_Text doc), tags_prompt (body_Text doc)] TagsFailed
             | Inr None \<Rightarrow> stop (extracted a resp doc) db
                   [summary_prompt (body_Text doc), tags_prompt (body_Text doc)] NoTags
             | Inr (Some tagsText) \<Rightarrow>
                \<lparr>article = fst (snd (Save (sql_driver w) (next_uuid w) (clock w)
                     ((extracted a resp doc)\<lparr>Summary := summaryText,
                        Tags := Split tagsText CHR '','', Status := ''unread''\<rparr>) db)),
                 store = snd (snd (Save (sql_driver w) (next_uuid w) (clock w)
                     ((extracted a resp doc)\<lparr>Summary := summaryText,
                        Tags := Split tagsText CHR '','', Status := ''unread''\<rparr>) db)),
                 generate_calls = [summary_prompt (body_Text doc), tags_prompt (body_Text doc)],
                 save_calls = [(extracted a resp doc)\<lparr>Summary := summaryText,
                        Tags := Split tagsText CHR '','', Status := ''unread''\<rparr>],
                 halted = (if fst (Save (sql_driver w) (next_uuid w) (clock w)
                     ((extracted a resp doc)\<lparr>Summary := summaryText,
                        Tags := Split tagsText CHR '','', Status := ''unread''\<rparr>) db) = None
                   then Processed else SaveFailed)\<rparr>)))"
  using assms
  by (simp add: ProcessNewArticle_def reaches_extraction_def extracted_def title_of_def
      summary_reply_def tags_reply_def Let_def
      split: sum.splits option.splits prod.splits)

lemma generate_calls_stop [simp]: "generate_calls (stop a db calls h) = calls"
  and save_calls_stop [simp]: "save_calls (stop a db calls h) = []"
  and store_stop [simp]: "store (stop a db calls h) = db"
  and article_stop [simp]: "article (stop a db calls h) = a"
  and halted_stop [simp]: "halted (stop a db calls h) = h"
  by (simp_all add: stop_def)

lemma generate_calls_le_2: "length (generate_calls (ProcessNewArticle w a db)) \<le> 2"
  by (simp add: ProcessNewArticle_def Let_def split: sum.splits option.splits prod.splits)

lemma no_save_no_write: "save_calls (ProcessNewArticle w a db) = [] \<Longrightarrow> store (ProcessNewArticle w a db) = db"
  by (auto simp: ProcessNewArticle_def Let_def split: sum.splits option.splits prod.splits if_splits)

lemma example_reaches_extraction:
  assumes "httpGet w = httpGet example_world"
    and "NewDocumentFromReader w = (\<lambda>body. Inr doc)"
  shows "reaches_extraction w example_article
    \<lparr>StatusCode = 200, Body = Inr ''<title>T</title><body>B</body>'',
     RequestURL = ''http://x.test/a''\<rparr> ''<title>T</title><body>B</body>'' doc"
  using assms
  by (simp add: reaches_extraction_def example_world_def example_article_def
      created_article_def)

text \<open>
  C5, as stated, fails: in the example world with a text-generation service that returns
  an error, extraction succeeds and the run issues one enrichment call, not two.
\<close>

theorem exactly_two_calls_counterexample:
  "reaches_extraction (example_world\<lparr>GenerateContent := \<lambda>model prompt. Inl ''unavailable''\<rparr>)
     example_article
     \<lparr>StatusCode = 200, Body = Inr ''<title>T</title><body>B</body>'',
      RequestURL = ''http://x.test/a''\<rparr>
     ''<title>T</title><body>B</body>'' \<lparr>title_Text = ''T'', body_Text = ''B''\<rparr>
   \<and> generate_calls (ProcessNewArticle
         (example_world\<lparr>GenerateContent := \<lambda>model prompt. Inl ''unavailable''\<rparr>)
         example_article example_table) = [summary_prompt ''B'']
   \<and> length (generate_calls (ProcessNewArticle
         (example_world\<lparr>GenerateContent := \<lambda>model prompt. Inl ''unavailable''\<rparr>)
         example_article example_table)) \<noteq> 2"
proof -
  define w where "w = example_world\<lparr>GenerateContent := \<lambda>model prompt. Inl ''unavailable''\<rparr>"
  have r: "reaches_extraction w example_article
     \<lparr>StatusCode = 200, Body = Inr ''<title>T</title><body>B</body>'',
      RequestURL = ''http://x.test/a''\<rparr>
     ''<title>T</title><body>B</body>'' \<lparr>title_Text = ''T'', body_Text = ''B''\<rparr>"
    by (rule example_reaches_extraction) (simp_all add: w_def example_world_def)
  have k: "GEMINI_API_KEY w \<noteq> []" "NewClient w (GEMINI_API_KEY w) = Inr ()"
    "summary_reply w \<lparr>title_Text = ''T'', body_Text = ''B''\<rparr> = Inl ''unavailable''"
    by (simp_all add: w_def example_world_def summary_reply_def)
  have c: "generate_calls (ProcessNewArticle w example_article example_table)
      = [summary_prompt ''B'']"
    by (simp add: ProcessNewArticle_extracted [OF r] k)
  from r c show ?thesis unfolding w_def by simp
qed

text \<open>
  C5, amended. No run issues more than two enrichment calls. A run that reaches
  extraction issues none when the API key is missing or the client cannot be created,
  the summary call alone when that call fails or returns no response, and the summary
  call followed by the tags call otherwise: exactly two calls exactly when the key is
  set, the client is created and the summary call returns a response.
\<close>

theorem enrichment_calls:
  "length (generate_calls (ProcessNewArticle w a db)) \<le> 2
   \<and> (reaches_extraction w a resp body doc \<longrightarrow>
        generate_calls (ProcessNewArticle w a db) =
          (if \<not> enrichment_ready w then []
           else if \<exists>t. summary_reply w doc = Inr (Some t)
             then [summary_prompt (body_Text doc), tags_prompt (body_Text doc)]
           else [summary_prompt (body_Text doc)]))"
proof (intro conjI impI)
  show "length (generate_calls (ProcessNewArticle w a db)) \<le> 2"
    by (rule generate_calls_le_2)
next
  assume r: "reaches_extraction w a resp body doc"
  show "generate_calls (ProcessNewArticle w a db) =
          (if \<not> enrichment_ready w then []
           else if \<exists>t. summary_reply w doc = Inr (Some t)
             then [summary_prompt (body_Text doc), tags_prompt (body_Text doc)]
           else [summary_prompt (body_Text doc)])"
    by (auto simp: ProcessNewArticle_extracted [OF r] enrichment_ready_def
        split: sum.splits option.splits)
qed

text \<open>The theorem at work: the example world answers both calls.\<close>

theorem enrichment_calls_witness:
  "reaches_extraction example_world example_article
     \<lparr>StatusCode = 200, Body = Inr ''<title>T</title><body>B</body>'',
      RequestURL = ''http://x.test/a''\<rparr>
     ''<title>T</title><body>B</body>'' \<lparr>title_Text = ''T'', body_Text = ''B''\<rparr>
   \<and> enrichment_ready example_world
   \<and> summary_reply example_world \<lparr>title_Text = ''T'', body_Text = ''B''\<rparr> = Inr (Some ''S'')
   \<and> generate_calls (ProcessNewArticle example_world example_article example_table)
       = [summary_prompt ''B'', tags_prompt ''B'']"
proof -
  have r: "reaches_extraction example_world example_article
     \<lparr>StatusCode = 200, Body = Inr ''<title>T</title><body>B</body>'',
      RequestURL = ''http://x.test/a''\<rparr>
     ''<title>T</title><body>B</body>'' \<lparr>title_Text = ''T'', body_Text = ''B''\<rparr>"
    by (rule example_reaches_extraction) (simp_all add: example_world_def)
  have k: "enrichment_ready example_world"
    by (simp add: enrichment_ready_def example_world_def)
  have s: "summary_reply example_world \<lparr>title_Text = ''T'', body_Text = ''B''\<rparr> = Inr (Some ''S'')"
    by (simp add: summary_reply_def example_world_def)
  from enrichment_calls [of example_world example_article example_table _ _
      "\<lparr>title_Text = ''T'', body_Text = ''B''\<rparr>"] r k s
  have "generate_calls (ProcessNewArticle example_world example_article example_table)
       = [summary_prompt ''B'', tags_prompt ''B'']"
    by simp
  with r k s show ?thesis by simp
qed

subsection \<open>Enrichment failures\<close>

text \<open>
  C6, as stated, fails when "an empty result" is a response with no text: in the example
  world with a service whose responses have the empty text, both requests succeed in the
  code's eyes, \<open>Save\<close> is called and the row goes to \<^verbatim>\<open>unread\<close>.
\<close>

theorem empty_text_is_committed_counterexample:
  "reaches_extraction (example_world\<lparr>GenerateContent := \<lambda>model prompt. Inr (Some [])\<rparr>)
     example_article
     \<lparr>StatusCode = 200, Body = Inr ''<title>T</title><body>B</body>'',
      RequestURL = ''http://x.test/a''\<rparr>
     ''<title>T</title><body>B</body>'' \<lparr>title_Text = ''T'', body_Text = ''B''\<rparr>
   \<and> summary_reply (example_world\<lparr>GenerateContent := \<lambda>model prompt. Inr (Some [])\<rparr>)
       \<lparr>title_Text = ''T'', body_Text = ''B''\<rparr> = Inr (Some [])
   \<and> tags_reply (example_world\<lparr>GenerateContent := \<lambda>model prompt. Inr (Some [])\<rparr>)
       \<lparr>title_Text = ''T'', body_Text = ''B''\<rparr> = Inr (Some [])
   \<and> length (save_calls (ProcessNewArticle
         (example_world\<lparr>GenerateContent := \<lambda>model prompt. Inr (Some [])\<rparr>)
         example_article example_table)) = 1
   \<and> map col_status example_table = [''processing'']
   \<and> map col_status (store (ProcessNewArticle
         (example_world\<lparr>GenerateContent := \<lambda>model prompt. Inr (Some [])\<rparr>)
         example_article example_table)) = [''unread'']"
proof -
  define w where "w = example_world\<lparr>GenerateContent := \<lambda>model prompt. Inr (Some [])\<rparr>"
  define doc where "doc = \<lparr>title_Text = ''T'', body_Text = ''B''\<rparr>"
  have r: "reaches_extraction w example_article
     \<lparr>StatusCode = 200, Body = Inr ''<title>T</title><body>B</body>'',
      RequestURL = ''http://x.test/a''\<rparr>
     ''<title>T</title><body>B</body>'' doc"
    by (rule example_reaches_extraction) (simp_all add: w_def example_world_def doc_def)
  have k: "GEMINI_API_KEY w \<noteq> []" "NewClient w (GEMINI_API_KEY w) = Inr ()"
    "summary_reply w doc = Inr (Some [])" "tags_reply w doc = Inr (Some [])"
    "sql_driver w = DriverOk"
    by (simp_all add: w_def example_world_def summary_reply_def tags_reply_def)
  have s: "length (save_calls (ProcessNewArticle w example_article example_table)) = 1"
    by (simp add: ProcessNewArticle_extracted [OF r] k)
  have i: "ID (extracted example_article resp doc) \<noteq> []" for resp
    by (simp add: extracted_def example_article_def created_article_def)
  have t: "map col_status (store (ProcessNewArticle w example_article example_table))
      = [''unread'']"
    by (simp add: ProcessNewArticle_extracted [OF r] k Save_update i)
      (simp add: example_table_def created_row_def matches_def extracted_def
        example_article_def created_article_def)
  have p: "map col_status example_table = [''processing'']"
    by (simp add: example_table_def created_row_def)
  from r k(3,4) s t p show ?thesis unfolding w_def doc_def by simp
qed

text \<open>
  C6, amended. In a run that reaches extraction, if the summary request or the tags
  request returns an error or no response at all (nil), the run stops without calling
  \<open>Save\<close> and the table is what it was. A response is not examined further: when the
  key is set, the client is created and both requests return a response, whatever its
  text (the empty text too), the run calls \<open>Save\<close> with the status \<^verbatim>\<open>unread\<close>.
\<close>

theorem enrichment_failure_writes_nothing:
  assumes "reaches_extraction w a resp body doc"
  shows "((\<exists>e. summary_reply w doc = Inl e) \<or> summary_reply w doc = Inr None
          \<or> (\<exists>e. tags_reply w doc = Inl e) \<or> tags_reply w doc = Inr None \<longrightarrow>
            save_calls (ProcessNewArticle w a db) = []
          \<and> store (ProcessNewArticle w a db) = db)
       \<and> (enrichment_ready w \<and> summary_reply w doc = Inr (Some s)
          \<and> tags_reply w doc = Inr (Some t) \<longrightarrow>
            save_calls (ProcessNewArticle w a db) =
              [(extracted a resp doc)\<lparr>Summary := s, Tags := Split t CHR '','',
                                        Status := ''unread''\<rparr>]
          \<and> store (ProcessNewArticle w a db) =
              snd (snd (Save (sql_driver w) (next_uuid w) (clock w)
                ((extracted a resp doc)\<lparr>Summary := s, Tags := Split t CHR '','',
                                          Status := ''unread''\<rparr>) db)))"
proof (intro conjI impI)
  assume f: "(\<exists>e. summary_reply w doc = Inl e) \<or> summary_reply w doc = Inr None
          \<or> (\<exists>e. tags_reply w doc = Inl e) \<or> tags_reply w doc = Inr None"
  then show "save_calls (ProcessNewArticle w a db) = []"
    by (auto simp: ProcessNewArticle_extracted [OF assms] split: sum.splits option.splits)
  then show "store (ProcessNewArticle w a db) = db"
    by (rule no_save_no_write)
next
  assume ok: "enrichment_ready w \<and> summary_reply w doc = Inr (Some s)
          \<and> tags_reply w doc = Inr (Some t)"
  then show "save_calls (ProcessNewArticle w a db) =
              [(extracted a resp doc)\<lparr>Summary := s, Tags := Split t CHR '','',
                                        Status := ''unread''\<rparr>]"
    by (simp add: ProcessNewArticle_extracted [OF assms] enrichment_ready_def)
  from ok show "store (ProcessNewArticle w a db) =
              snd (snd (Save (sql_driver w) (next_uuid w) (clock w)
                ((extracted a resp doc)\<lparr>Summary := s, Tags := Split t CHR '','',
                                          Status := ''unread''\<rparr>) db))"
    by (simp add: ProcessNewArticle_extracted [OF assms] enrichment_ready_def)
qed

text \<open>
  The theorem at work: a service that returns no response leaves the example table as it
  is; the example world, which answers both requests, gets one \<open>Save\<close> call.
\<close>

theorem enrichment_failure_writes_nothing_witness:
  "reaches_extraction (example_world\<lparr>GenerateContent := \<lambda>model prompt. Inr None\<rparr>)
     example_article
     \<lparr>StatusCode = 200, Body = Inr ''<title>T</title><body>B</body>'',
      RequestURL = ''http://x.test/a''\<rparr>
     ''<title>T</title><body>B</body>'' \<lparr>title_Text = ''T'', body_Text = ''B''\<rparr>
   \<and> summary_reply (example_world\<lparr>GenerateContent := \<lambda>model prompt. Inr None\<rparr>)
       \<lparr>title_Text = ''T'', body_Text = ''B''\<rparr> = Inr None
   \<and> save_calls (ProcessNewArticle (example_world\<lparr>GenerateContent := \<lambda>model prompt. Inr None\<rparr>)
       example_article example_table) = []
   \<and> store (ProcessNewArticle (example_world\<lparr>GenerateContent := \<lambda>model prompt. Inr None\<rparr>)
       example_article example_table) = example_table
   \<and> reaches_extraction example_world example_article
     \<lparr>StatusCode = 200, Body = Inr ''<title>T</title><body>B</body>'',
      RequestURL = ''http://x.test/a''\<rparr>
     ''<title>T</title><body>B</body>'' \<lparr>title_Text = ''T'', body_Text = ''B''\<rparr>
   \<and> enrichment_ready example_world
   \<and> summary_reply example_world \<lparr>title_Text = ''T'', body_Text = ''B''\<rparr> = Inr (Some ''S'')
   \<and> tags_reply example_world \<lparr>title_Text = ''T'', body_Text = ''B''\<rparr> = Inr (Some ''t1,t2'')
   \<and> length (save_calls (ProcessNewArticle example_world example_article example_table)) = 1"
proof -
  define w where "w = example_world\<lparr>GenerateContent := \<lambda>model prompt. Inr None\<rparr>"
  define doc where "doc = \<lparr>title_Text = ''T'', body_Text = ''B''\<rparr>"
  define resp where "resp = \<lparr>StatusCode = 200, Body = Inr ''<title>T</title><body>B</body>'',
      RequestURL = ''http://x.test/a''\<rparr>"
  have r1: "reaches_extraction w example_article resp ''<title>T</title><body>B</body>'' doc"
    unfolding resp_def by (rule example_reaches_extraction) (simp_all add: w_def example_world_def doc_def)
  have n: "summary_reply w doc = Inr None"
    by (simp add: w_def summary_reply_def)
  from enrichment_failure_writes_nothing [OF r1, where db = example_table] n
  have a: "save_calls (ProcessNewArticle w example_article example_table) = []"
    and b: "store (ProcessNewArticle w example_article example_table) = example_table"
    by blast+
  have r2: "reaches_extraction example_world example_article resp
      ''<title>T</title><body>B</body>'' doc"
    unfolding resp_def by (rule example_reaches_extraction) (simp_all add: example_world_def doc_def)
  have k: "enrichment_ready example_world"
    by (simp add: enrichment_ready_def example_world_def)
  have s: "summary_reply example_world doc = Inr (Some ''S'')"
    by (simp add: summary_reply_def example_world_def doc_def)
  have t: "tags_reply example_world doc = Inr (Some ''t1,t2'')"
    by (simp add: tags_reply_def example_world_def doc_def summary_prompt_def tags_prompt_def)
  from enrichment_failure_writes_nothing [OF r2, where s = "''S''" and t = "''t1,t2''"
      and db = example_table] k s t
  have c: "length (save_calls (ProcessNewArticle example_world example_article example_table)) = 1"
    by simp
  from r1 n a b r2 k s t c show ?thesis unfolding w_def doc_def resp_def by blast
qed

subsection \<open>The commit\<close>



text \<open>A run in which every step succeeds, for an article that has its id.\<close>

lemma ProcessNewArticle_commit:
  assumes r: "reaches_extraction w a resp body doc"
    and k: "enrichment_ready w"
    and s: "summary_reply w doc = Inr (Some s)"
    and t: "tags_reply w doc = Inr (Some t)"
    and i: "ID a \<noteq> []"
    and d: "sql_driver w \<noteq> PrepareFails" "sql_driver w \<noteq> ExecFails"
  shows "ProcessNewArticle w a db =
    \<lparr>article = (extracted a resp doc)\<lparr>Summary := s, Tags := Split t CHR '','',
                 Status := ''unread'', UpdatedAt := clock w\<rparr>,
     store = map (\<lambda>r. if matches (ID a) (UserID a) r
               then r\<lparr>col_url := RequestURL resp, col_title := title_of a doc,
                      col_summary := s, col_tags := t, col_status := ''unread'',
                      col_updated_at := clock w\<rparr>
               else r) db,
     generate_calls = [summary_prompt (body_Text doc), tags_prompt (body_Text doc)],
     save_calls = [(extracted a resp doc)\<lparr>Summary := s, Tags := Split t CHR '','',
                     Status := ''unread''\<rparr>],
     halted = Processed\<rparr>"
proof -
  let ?a2 = "(extracted a resp doc)\<lparr>Summary := s, Tags := Split t CHR '','',
                     Status := ''unread''\<rparr>"
  have i2: "ID ?a2 \<noteq> []" using i by (simp add: extracted_def)
  have j: "Join (Split t CHR '','') '','' = t" by (rule Join_Split)
  have sv: "Save (sql_driver w) (next_uuid w) (clock w) ?a2 db =
    (None, ?a2\<lparr>UpdatedAt := clock w\<rparr>,
     map (\<lambda>r. if matches (ID a) (UserID a) r
               then r\<lparr>col_url := RequestURL resp, col_title := title_of a doc,
                      col_summary := s, col_tags := t, col_status := ''unread'',
                      col_updated_at := clock w\<rparr>
               else r) db)"
    unfolding Save_update [OF i2 d] by (simp add: extracted_def j)
  from k have k': "GEMINI_API_KEY w \<noteq> []" "NewClient w (GEMINI_API_KEY w) = Inr ()"
    by (simp_all add: enrichment_ready_def)
  show ?thesis
    unfolding ProcessNewArticle_extracted [OF r] by (simp add: k' s t sv)
qed



subsection \<open>The title\<close>




subsection \<open>The tags\<close>

lemma Split_a_b_c: "Split ''a, b,c'' CHR '','' = [''a'', '' b'', ''c'']"
  by (simp add: Split_Cons Split_Nil)

text \<open>
  C8. When the run reaches the tags request and the returned text is \<^verbatim>\<open>a, b,c\<close>, the tags
  handed to \<open>Save\<close> and left in the article are \<open>[''a'', '' b'', ''c'']\<close>, the blank
  kept. For any returned text the tags are its pieces between commas, and joining them
  with commas gives the text back, so nothing is trimmed and no piece is dropped. When
  \<open>Save\<close> reaches the table, the rows of the article hold the text, and reading a row
  back gives the same list.
\<close>

theorem tags_split_on_commas:
  assumes "reaches_extraction w a resp body doc"
    and "enrichment_ready w"
    and "summary_reply w doc = Inr (Some s)"
    and "tags_reply w doc = Inr (Some t)"
  shows "Tags (article (ProcessNewArticle w a db)) = Split t CHR '',''
       \<and> map Tags (save_calls (ProcessNewArticle w a db)) = [Split t CHR '','']
       \<and> Join (Tags (article (ProcessNewArticle w a db))) '','' = t
       \<and> (t = ''a, b,c'' \<longrightarrow>
            Tags (article (ProcessNewArticle w a db)) = [''a'', '' b'', ''c''])
       \<and> (ID a \<noteq> [] \<and> sql_driver w \<noteq> PrepareFails \<and> sql_driver w \<noteq> ExecFails \<longrightarrow>
            (\<forall>row\<in>set (store (ProcessNewArticle w a db)).
               matches (ID a) (UserID a) row \<longrightarrow>
                 col_tags row = t \<and> Tags (scan row) = Split t CHR '',''))"
proof -
  from assms(2) have k: "GEMINI_API_KEY w \<noteq> []" "NewClient w (GEMINI_API_KEY w) = Inr ()"
    by (simp_all add: enrichment_ready_def)
  have tg: "Tags (article (ProcessNewArticle w a db)) = Split t CHR '',''"
    by (simp add: ProcessNewArticle_extracted [OF assms(1)] k assms(3,4) Save_receiver)
  have sc: "map Tags (save_calls (ProcessNewArticle w a db)) = [Split t CHR '','']"
    by (simp add: ProcessNewArticle_extracted [OF assms(1)] k assms(3,4))
  have rows: "col_tags row = t \<and> Tags (scan row) = Split t CHR '',''"
    if ok: "ID a \<noteq> [] \<and> sql_driver w \<noteq> PrepareFails \<and> sql_driver w \<noteq> ExecFails"
      and row: "row \<in> set (store (ProcessNewArticle w a db))" "matches (ID a) (UserID a) row"
    for row
  proof -
    from ok have "ProcessNewArticle w a db =
      \<lparr>article = (extracted a resp doc)\<lparr>Summary := s, Tags := Split t CHR '','',
                 Status := ''unread'', UpdatedAt := clock w\<rparr>,
       store = map (\<lambda>r. if matches (ID a) (UserID a) r
               then r\<lparr>col_url := RequestURL resp, col_title := title_of a doc,
                      col_summary := s, col_tags := t, col_status := ''unread'',
                      col_updated_at := clock w\<rparr>
               else r) db,
       generate_calls = [summary_prompt (body_Text doc), tags_prompt (body_Text doc)],
       save_calls = [(extracted a resp doc)\<lparr>Summary := s, Tags := Split t CHR '','',
                     Status := ''unread''\<rparr>],
       halted = Processed\<rparr>"
      using ProcessNewArticle_commit [OF assms, of db] by simp
    with row have "col_tags row = t" by (auto simp: matches_def split: if_splits)
    then show ?thesis by (simp add: scan_tags)
  qed
  from tg sc rows show ?thesis by (simp add: Join_Split Split_a_b_c)
qed

text \<open>
  The theorem at work: the example world with the tag text \<^verbatim>\<open>a, b,c\<close>.
\<close>

theorem tags_split_on_commas_witness:
  "reaches_extraction
     (example_world\<lparr>GenerateContent := \<lambda>model prompt.
        if prompt = summary_prompt ''B'' then Inr (Some ''S'') else Inr (Some ''a, b,c'')\<rparr>)
     example_article
     \<lparr>StatusCode = 200, Body = Inr ''<title>T</title><body>B</body>'',
      RequestURL = ''http://x.test/a''\<rparr>
     ''<title>T</title><body>B</body>'' \<lparr>title_Text = ''T'', body_Text = ''B''\<rparr>
   \<and> enrichment_ready
     (example_world\<lparr>GenerateContent := \<lambda>model prompt.
        if prompt = summary_prompt ''B'' then Inr (Some ''S'') else Inr (Some ''a, b,c'')\<rparr>)
   \<and> summary_reply
     (example_world\<lparr>GenerateContent := \<lambda>model prompt.
        if prompt = summary_prompt ''B'' then Inr (Some ''S'') else Inr (Some ''a, b,c'')\<rparr>)
     \<lparr>title_Text = ''T'', body_Text = ''B''\<rparr> = Inr (Some ''S'')
   \<and> tags_reply
     (example_world\<lparr>GenerateContent := \<lambda>model prompt.
        if prompt = summary_prompt ''B'' then Inr (Some ''S'') else Inr (Some ''a, b,c'')\<rparr>)
     \<lparr>title_Text = ''T'', body_Text = ''B''\<rparr> = Inr (Some ''a, b,c'')
   \<and> ID example_article \<noteq> []
   \<and> Tags (article (ProcessNewArticle
     (example_world\<lparr>GenerateContent := \<lambda>model prompt.
        if prompt = summary_prompt ''B'' then Inr (Some ''S'') else Inr (Some ''a, b,c'')\<rparr>)
     example_article example_table)) = [''a'', '' b'', ''c'']
   \<and> map Tags (save_calls (ProcessNewArticle
     (example_world\<lparr>GenerateContent := \<lambda>model prompt.
        if prompt = summary_prompt ''B'' then Inr (Some ''S'') else Inr (Some ''a, b,c'')\<rparr>)
     example_article example_table)) = [[''a'', '' b'', ''c'']]"
proof -
  define doc where "doc = \<lparr>title_Text = ''T'', body_Text = ''B''\<rparr>"
  define w where "w = example_world\<lparr>GenerateContent := \<lambda>model prompt.
        if prompt = summary_prompt ''B'' then Inr (Some ''S'') else Inr (Some ''a, b,c'')\<rparr>"
  define resp where "resp = \<lparr>StatusCode = 200, Body = Inr ''<title>T</title><body>B</body>'',
      RequestURL = ''http://x.test/a''\<rparr>"
  have r: "reaches_extraction w example_article resp ''<title>T</title><body>B</body>'' doc"
    unfolding resp_def
    by (rule example_reaches_extraction) (simp_all add: w_def example_world_def doc_def)
  have k: "enrichment_ready w"
    by (simp add: enrichment_ready_def w_def example_world_def)
  have s: "summary_reply w doc = Inr (Some ''S'')"
    by (simp add: summary_reply_def w_def doc_def)
  have t: "tags_reply w doc = Inr (Some ''a, b,c'')"
    by (simp add: tags_reply_def w_def doc_def summary_prompt_def tags_prompt_def)
  have i: "ID example_article \<noteq> []" by (simp add: example_article_def created_article_def)
  note th = tags_split_on_commas [OF r k s t, of example_table]
  from th have c1: "Tags (article (ProcessNewArticle w example_article example_table))
      = [''a'', '' b'', ''c'']"
    by blast
  from th have "map Tags (save_calls (ProcessNewArticle w example_article example_table))
      = [Split ''a, b,c'' CHR '','']"
    by blast
  then have c2: "map Tags (save_calls (ProcessNewArticle w example_article example_table))
      = [[''a'', '' b'', ''c'']]"
    by (simp add: Split_a_b_c)
  from r k s t i c1 c2 show ?thesis unfolding w_def doc_def resp_def by blast
qed

subsection \<open>Identity, owner and the way back to \<^verbatim>\<open>processing\<close>\<close>

lemma keeps_owner_refl: "keeps_owner db db"
  by (auto simp: keeps_owner_def)

lemma no_reprocessing_refl: "no_reprocessing db db"
  by (auto simp: no_reprocessing_def)

lemma keeps_owner_map:
  assumes "\<And>r. col_id (f r) = col_id r \<and> col_user_id (f r) = col_user_id r"
  shows "keeps_owner db (map f db)"
  using assms by (auto simp: keeps_owner_def)

lemma no_reprocessing_map:
  assumes "\<And>r. col_id (f r) = col_id r"
    and "\<And>r. col_status (f r) = ''processing'' \<Longrightarrow> col_status r = ''processing''"
  shows "no_reprocessing db (map f db)"
  using assms by (auto simp: no_reprocessing_def)

lemma keeps_owner_filter: "keeps_owner db (filter P db)"
  by (auto simp: keeps_owner_def)

lemma no_reprocessing_filter: "no_reprocessing db (filter P db)"
  by (auto simp: no_reprocessing_def)

lemma keeps_owner_append: "col_id r \<notin> ids db \<Longrightarrow> keeps_owner db (db @ [r])"
  by (auto simp: keeps_owner_def)

lemma no_reprocessing_append: "col_id r \<notin> ids db \<Longrightarrow> no_reprocessing db (db @ [r])"
  by (auto simp: no_reprocessing_def)

lemma Save_keeps_owner: "keeps_owner db (snd (snd (Save d uuid now a db)))"
  by (auto simp: Save_def Let_def ids_def keeps_owner_refl
      intro!: keeps_owner_map keeps_owner_append)

lemma Save_no_reprocessing:
  assumes "ID a = [] \<or> Status a \<noteq> ''processing''"
  shows "no_reprocessing db (snd (snd (Save d uuid now a db)))"
proof (cases "ID a = []")
  case True
  then show ?thesis
    by (auto simp: Save_def Let_def ids_def no_reprocessing_refl intro!: no_reprocessing_append)
next
  case False
  with assms have "Status a \<noteq> ''processing''" by simp
  with False show ?thesis
    by (auto simp: Save_def Let_def no_reprocessing_refl intro!: no_reprocessing_map
        split: if_splits)
qed



lemma UpdateArticleTags_keeps:
  "keeps_owner db (snd (UpdateArticleTags d now i u ts db))"
  "no_reprocessing db (snd (UpdateArticleTags d now i u ts db))"
  by (auto simp: UpdateArticleTags_def Let_def keeps_owner_refl no_reprocessing_refl
      intro!: keeps_owner_map no_reprocessing_map split: if_splits)

lemma DeleteArticle_keeps:
  "keeps_owner db (snd (DeleteArticle d i u db))"
  "no_reprocessing db (snd (DeleteArticle d i u db))"
  by (auto simp: DeleteArticle_def Let_def keeps_owner_refl no_reprocessing_refl
      keeps_owner_filter no_reprocessing_filter)



lemma UpdateArticleTags_handler_table:
  "snd (UpdateArticleTags_handler d now ctx i req db) =
     (case ctx of None \<Rightarrow> db
      | Some u \<Rightarrow> if i = [] then db
          else (case req of Inl err \<Rightarrow> db
            | Inr ts \<Rightarrow> if ts = [] then db
                else snd (UpdateArticleTags d now i u ts db)))"
  by (auto simp: UpdateArticleTags_handler_def
      split: option.splits sum.splits prod.splits if_splits)

lemma UpdateArticleTags_handler_keeps:
  "keeps_owner db (snd (UpdateArticleTags_handler d now ctx i req db))"
  "no_reprocessing db (snd (UpdateArticleTags_handler d now ctx i req db))"
  by (auto simp: UpdateArticleTags_handler_table keeps_owner_refl no_reprocessing_refl
      UpdateArticleTags_keeps split: option.splits sum.splits)

lemma DeleteArticle_handler_table:
  "snd (DeleteArticle_handler d ctx i db) =
     (case ctx of None \<Rightarrow> db
      | Some u \<Rightarrow> if u = [] \<or> i = [] then db else snd (DeleteArticle d i u db))"
  by (auto simp: DeleteArticle_handler_def
      split: option.splits sum.splits prod.splits if_splits)

lemma DeleteArticle_handler_keeps:
  "keeps_owner db (snd (DeleteArticle_handler d ctx i db))"
  "no_reprocessing db (snd (DeleteArticle_handler d ctx i db))"
  by (auto simp: DeleteArticle_handler_table keeps_owner_refl no_reprocessing_refl
      DeleteArticle_keeps split: option.splits)

lemma SubmitArticle_keeps:
  "keeps_owner db (fst (snd (SubmitArticle d uuid now ctx req db)))"
  "no_reprocessing db (fst (snd (SubmitArticle d uuid now ctx req db)))"
  by (auto simp: SubmitArticle_def Let_def case_prod_beta keeps_owner_refl
      no_reprocessing_refl Save_keeps_owner Save_no_reprocessing zero_Article_def
      split: option.splits sum.splits)






end
